theory Spec2Isabelle
  imports Complex_Main "HOL-Library.AList"
begin

section \<open>Python values, exceptions and dictionaries\<close>

text \<open>
  Python objects that the orchestration code inspects: \<open>None\<close>, numbers, strings and
  lists. Exceptions are values: \<open>SMRTError\<close> is the only exception class the repository
  raises itself (the text is its message); the other constructors are the built-in
  exceptions raised by Python and by the array libraries the code calls.
\<close>

datatype pyval = PNone | PNum real | PStr string | PList "pyval list"

datatype error =
    SMRTError string
  | DeprecationWarning string
  | PluginNotFound string
  | ValueError
  | KeyError
  | IndexError
  | TypeError
  | AttributeError
  | AssertionError
  | OutsideModel

type_synonym 'v dict = "(string \<times> 'v) list"

definition dict_get :: "'v dict \<Rightarrow> string \<Rightarrow> 'v option" where
  "dict_get d k = map_of d k"

definition dict_keys :: "'v dict \<Rightarrow> string list" where
  "dict_keys d = map fst d"

definition dict_set :: "string \<Rightarrow> 'v \<Rightarrow> 'v dict \<Rightarrow> 'v dict" where
  "dict_set k v d = AList.update k v d"

definition dict_update :: "'v dict \<Rightarrow> 'v dict \<Rightarrow> 'v dict" where
  "dict_update d other = fold (\<lambda>kv. dict_set (fst kv) (snd kv)) other d"

definition dict_pop :: "string \<Rightarrow> pyval dict \<Rightarrow> pyval \<times> pyval dict" where
  "dict_pop k d = (case map_of d k of None \<Rightarrow> (PNone, d) | Some v \<Rightarrow> (v, AList.delete k d))"

text \<open>
  A list comprehension \<open>[f(x) for x in xs]\<close> whose body may raise: the first exception,
  in list order, ends the evaluation.
\<close>

fun list_comprehension :: "('a \<Rightarrow> error + 'b) \<Rightarrow> 'a list \<Rightarrow> error + 'b list" where
  "list_comprehension f [] = Inr []"
| "list_comprehension f (x # xs) =
     (case f x of
        Inl e \<Rightarrow> Inl e
      | Inr y \<Rightarrow> (case list_comprehension f xs of Inl e \<Rightarrow> Inl e | Inr ys \<Rightarrow> Inr (y # ys)))"

text \<open>
  \<open>range(0, stop, step)\<close> for a length \<open>stop\<close>: a zero step raises \<open>ValueError\<close>, a
  negative step gives the empty range, a positive step the multiples of \<open>step\<close> below
  \<open>stop\<close>. \<open>xs[i : i + n]\<close> for \<open>0 \<le> i\<close> follows Python's slice rules: a negative
  end counts from the end of the list, and both ends are clamped.
\<close>

definition py_range :: "nat \<Rightarrow> int \<Rightarrow> error + nat list" where
  "py_range stop step =
     (if step = 0 then Inl ValueError
      else if step < 0 then Inr []
      else Inr (map (\<lambda>k. k * nat step) [0 ..< (stop + nat step - 1) div nat step]))"

definition py_slice :: "'a list \<Rightarrow> nat \<Rightarrow> int \<Rightarrow> 'a list" where
  "py_slice xs i j =
     (let n = int (length xs);
          hi = (if j < 0 then max 0 (n + j) else min j n)
      in take (nat hi - i) (drop i xs))"

section \<open>Runners (model.py)\<close>

text \<open>
  A runner takes the unit function and the list of argument tuples and returns the list of
  results. \<open>SequentialRunner.__call__\<close> is the list comprehension
  \<open>[function(*args) for args in argument_list]\<close>.

  The two parallel runners hand the work to an external executor (joblib's \<open>Parallel\<close>,
  dask's \<open>client.map\<close> and \<open>client.gather\<close>). Their contract: every task is run, the
  results come back in the order of submission, and the call raises when a task raised.
  Which of several failures is reported depends on timing, so it is the parameter
  \<open>pick\<close> of the model. \<open>lib.set_max_numerical_threads\<close> configures the worker process
  and has no result.
\<close>

definition SequentialRunner :: "('a \<Rightarrow> error + 'b) \<Rightarrow> 'a list \<Rightarrow> error + 'b list" where
  "SequentialRunner function argument_list = list_comprehension function argument_list"

definition gather_outcomes :: "(error list \<Rightarrow> error) \<Rightarrow> (error + 'b) list \<Rightarrow> error + 'b list" where
  "gather_outcomes pick outs =
     (if list_all (\<lambda>out. \<not> isl out) outs then Inr (map projr outs)
      else Inl (pick (map projl (filter isl outs))))"

definition delayed :: "('a \<Rightarrow> error + 'b) \<Rightarrow> 'a \<Rightarrow> (unit \<Rightarrow> error + 'b)" where
  "delayed function args = (\<lambda>_. function args)"

definition joblib_Parallel :: "(error list \<Rightarrow> error) \<Rightarrow> (unit \<Rightarrow> error + 'b) list \<Rightarrow> error + 'b list" where
  "joblib_Parallel pick tasks = gather_outcomes pick (map (\<lambda>task. task ()) tasks)"

definition JoblibParallelRunner :: "(error list \<Rightarrow> error) \<Rightarrow> ('a \<Rightarrow> error + 'b) \<Rightarrow> 'a list \<Rightarrow> error + 'b list" where
  "JoblibParallelRunner pick function argument_list =
     joblib_Parallel pick (map (\<lambda>args. delayed function args) argument_list)"

definition client_map :: "('a \<Rightarrow> error + 'b) \<Rightarrow> 'a list \<Rightarrow> (error + 'b) list" where
  "client_map f xs = map f xs"

definition client_gather :: "(error list \<Rightarrow> error) \<Rightarrow> (error + 'b) list \<Rightarrow> error + 'b list" where
  "client_gather pick futures = gather_outcomes pick futures"

definition function_with_single_numerical_threads :: "('a \<Rightarrow> error + 'b) \<Rightarrow> 'a \<Rightarrow> error + 'b" where
  "function_with_single_numerical_threads function args = function args"

definition DaskParallelRunner :: "int \<Rightarrow> (error list \<Rightarrow> error) \<Rightarrow> ('a \<Rightarrow> error + 'b) \<Rightarrow> 'a list \<Rightarrow> error + 'b list" where
  "DaskParallelRunner chunk pick function argument_list =
     (let n = chunk in
      case py_range (length argument_list) n of
        Inl e \<Rightarrow> Inl e
      | Inr starts \<Rightarrow>
          client_gather pick
            (concat (map (\<lambda>i. client_map (function_with_single_numerical_threads function)
                                 (py_slice argument_list i (int i + n))) starts)))"

section \<open>Interfaces and substrates (interface.py)\<close>

text \<open>
  An interface class is described by what \<open>Interface.__init__\<close> reads of it: its name, the
  list \<open>args\<close> of required parameters and the dictionary \<open>optional_args\<close> of defaults.
  An instance is the class with the attributes that \<open>__init__\<close> has set.
\<close>

record iface_class =
  cls_name :: string
  args :: "string list"
  optional_args :: "pyval dict"

record iface_instance =
  inst_class :: iface_class
  attrs :: "pyval dict"

fun set_required :: "string list \<Rightarrow> pyval dict \<Rightarrow> pyval dict \<Rightarrow> error + pyval dict" where
  "set_required [] kwargs self = Inr self"
| "set_required (arg # rest) kwargs self =
     (case dict_get kwargs arg of
        Some v \<Rightarrow> set_required rest kwargs (dict_set arg v self)
      | None \<Rightarrow> Inl (SMRTError (''Parameter '' @ arg @ '' must be specified'')))"

fun set_optional :: "pyval dict \<Rightarrow> pyval dict \<Rightarrow> pyval dict \<Rightarrow> pyval dict" where
  "set_optional [] kwargs self = self"
| "set_optional ((arg, dflt) # rest) kwargs self =
     set_optional rest kwargs
       (dict_set arg (case dict_get kwargs arg of Some v \<Rightarrow> v | None \<Rightarrow> dflt) self)"

definition Interface_init :: "iface_class \<Rightarrow> pyval dict \<Rightarrow> error + iface_instance" where
  "Interface_init cls kwargs =
     (case set_required (args cls) kwargs [] of
        Inl e \<Rightarrow> Inl e
      | Inr self \<Rightarrow> Inr \<lparr>inst_class = cls, attrs = set_optional (optional_args cls) kwargs self\<rparr>)"

text \<open>
  Modelled from the spec: \<open>lib.is_sequence\<close> and \<open>lib.get\<close> (module \<open>smrt.core.lib\<close>) are
  missing from the source files. The spec's broadcasting rule: a keyword argument that is
  a sequence (a string is not one) gives its i-th element, a scalar argument is reused
  unchanged, and a sequence shorter than the index is indexed out of range.
\<close>

definition is_sequence :: "pyval \<Rightarrow> bool" where
  "is_sequence v = (case v of PList _ \<Rightarrow> True | _ \<Rightarrow> False)"

definition lib_get_value :: "pyval \<Rightarrow> nat \<Rightarrow> error + pyval" where
  "lib_get_value v i =
     (case v of
        PList xs \<Rightarrow> (if i < length xs then Inr (xs ! i) else Inl IndexError)
      | _ \<Rightarrow> Inr v)"

definition lib_get :: "pyval dict \<Rightarrow> nat \<Rightarrow> error + pyval dict" where
  "lib_get kwargs i =
     list_comprehension (\<lambda>kv. map_sum id (Pair (fst kv)) (lib_get_value (snd kv) i)) kwargs"

definition py_len :: "pyval \<Rightarrow> error + nat" where
  "py_len v = (case v of PList xs \<Rightarrow> Inr (length xs) | PStr s \<Rightarrow> Inr (length s) | _ \<Rightarrow> Inl TypeError)"

definition seq_len :: "pyval \<Rightarrow> nat" where
  "seq_len v = (case v of PList xs \<Rightarrow> length xs | _ \<Rightarrow> 0)"

definition py_max :: "nat list \<Rightarrow> nat" where
  "py_max l = fold max l 0"

text \<open>
  The first argument of \<open>make_interface\<close>: \<open>None\<close>, a module name, a class, an object that
  has a \<open>specular_reflection_matrix\<close> attribute, or any other object. The default class
  \<open>Flat\<close> and the plugin lookup \<open>import_class\<close> are not in the source files: they are the
  parameters \<open>Flat\<close> and \<open>registry\<close> (a name that is not registered is the spec's
  \<open>PluginNotFound\<close>). The function returns one instance or a list of instances.
\<close>

datatype iface_arg =
    ArgNone
  | ArgName string
  | ArgClass iface_class
  | ArgInstance iface_instance
  | ArgOther

datatype made = One iface_instance | Many "iface_instance list"

definition make_interface ::
  "iface_class \<Rightarrow> (string \<Rightarrow> iface_class option) \<Rightarrow> iface_arg \<Rightarrow> bool \<Rightarrow> pyval dict \<Rightarrow> error + made" where
  "make_interface Flat registry inst_class_or_modulename broadcast kwargs =
     (let construct = (\<lambda>interface_cls.
            if broadcast \<and> kwargs \<noteq> [] then
              (let l = map seq_len (filter is_sequence (map snd kwargs)) in
               if l \<noteq> [] then
                 map_sum id Many
                   (list_comprehension
                      (\<lambda>i. case lib_get kwargs i of
                              Inl e \<Rightarrow> Inl e
                            | Inr kw \<Rightarrow> Interface_init interface_cls kw)
                      [0 ..< py_max l])
               else map_sum id One (Interface_init interface_cls kwargs))
            else map_sum id One (Interface_init interface_cls kwargs))
      in case inst_class_or_modulename of
           ArgNone \<Rightarrow> construct Flat
         | ArgName name \<Rightarrow>
             (case registry name of
                None \<Rightarrow> Inl (PluginNotFound name)
              | Some interface_cls \<Rightarrow> construct interface_cls)
         | ArgClass interface_cls \<Rightarrow> construct interface_cls
         | ArgInstance inst \<Rightarrow> Inr (One inst)
         | ArgOther \<Rightarrow>
             Inl (SMRTError ''The interface must be either the name of a module in the smrt.interface directory, or a class that implements the interface behavior.''))"

text \<open>
  \<open>SubstrateBase\<close> keeps the temperature and the permittivity model (a function of
  frequency and temperature, or \<open>None\<close>); \<open>permittivity\<close> returns \<open>None\<close> when no model is
  set. The boundary operations of the interface class are functions of the object, the
  frequency, both permittivities and the geometry; a class offers each of them or not, and
  they return a matrix of some type \<open>'m\<close>.
\<close>

record substrate =
  temperature :: "real option"
  permittivity_model :: "(real \<Rightarrow> real option \<Rightarrow> complex option) option"
  iface_attrs :: "pyval dict"

definition permittivity :: "substrate \<Rightarrow> real \<Rightarrow> complex option" where
  "permittivity self frequency =
     (case permittivity_model self of
        None \<Rightarrow> None
      | Some model \<Rightarrow> model frequency (temperature self))"

type_synonym 'm raw_specular =
  "substrate \<Rightarrow> real \<Rightarrow> complex \<Rightarrow> complex \<Rightarrow> real list \<Rightarrow> nat \<Rightarrow> error + 'm"
type_synonym 'm raw_diffuse =
  "substrate \<Rightarrow> real \<Rightarrow> complex \<Rightarrow> complex \<Rightarrow> real list \<Rightarrow> real list \<Rightarrow> real \<Rightarrow> nat \<Rightarrow> error + 'm"
type_synonym 'm raw_ft_diffuse =
  "substrate \<Rightarrow> real \<Rightarrow> complex \<Rightarrow> complex \<Rightarrow> real list \<Rightarrow> real list \<Rightarrow> nat \<Rightarrow> nat \<Rightarrow> error + 'm"

record 'm interface_cls =
  iface_name :: string
  raw_specular_reflection_matrix :: "'m raw_specular option"
  raw_coherent_transmission_matrix :: "'m raw_specular option"
  raw_diffuse_reflection_matrix :: "'m raw_diffuse option"
  raw_ft_even_diffuse_reflection_matrix :: "'m raw_ft_diffuse option"

definition no_model_msg :: "string \<Rightarrow> string" where
  "no_model_msg name = ''No permittivity_model have been given to the substrate '' @ name"

definition specular_reflection_matrix ::
  "string \<Rightarrow> 'm raw_specular \<Rightarrow> substrate \<Rightarrow> real \<Rightarrow> complex \<Rightarrow> real list \<Rightarrow> nat \<Rightarrow> error + 'm" where
  "specular_reflection_matrix name raw self frequency eps_1 mu1 npol =
     (case permittivity self frequency of
        None \<Rightarrow> Inl (SMRTError (no_model_msg name))
      | Some eps_2 \<Rightarrow> raw self frequency eps_1 eps_2 mu1 npol)"

definition emissivity_matrix ::
  "string \<Rightarrow> 'm raw_specular \<Rightarrow> substrate \<Rightarrow> real \<Rightarrow> complex \<Rightarrow> real list \<Rightarrow> nat \<Rightarrow> error + 'm" where
  "emissivity_matrix name raw self frequency eps_1 mu1 npol =
     (case permittivity self frequency of
        None \<Rightarrow> Inl (SMRTError (no_model_msg name))
      | Some eps_2 \<Rightarrow> raw self frequency eps_1 eps_2 mu1 npol)"

definition diffuse_reflection_matrix ::
  "string \<Rightarrow> 'm raw_diffuse \<Rightarrow> substrate \<Rightarrow> real \<Rightarrow> complex \<Rightarrow> real list \<Rightarrow> real list \<Rightarrow> real \<Rightarrow> nat \<Rightarrow> error + 'm" where
  "diffuse_reflection_matrix name raw self frequency eps_1 mu_s mu_i dphi npol =
     (case permittivity self frequency of
        None \<Rightarrow> Inl (SMRTError (no_model_msg name))
      | Some eps_2 \<Rightarrow> raw self frequency eps_1 eps_2 mu_s mu_i dphi npol)"

definition ft_even_diffuse_reflection_matrix ::
  "string \<Rightarrow> 'm raw_ft_diffuse \<Rightarrow> substrate \<Rightarrow> real \<Rightarrow> complex \<Rightarrow> real list \<Rightarrow> real list \<Rightarrow> nat \<Rightarrow> nat \<Rightarrow> error + 'm" where
  "ft_even_diffuse_reflection_matrix name raw self frequency eps_1 mu_s mu_i m_max npol =
     (case permittivity self frequency of
        None \<Rightarrow> Inl (SMRTError (no_model_msg name))
      | Some eps_2 \<Rightarrow> raw self frequency eps_1 eps_2 mu_s mu_i m_max npol)"

text \<open>
  The decorator \<open>substrate_from_interface\<close>: \<open>auto_add\<close> puts a wrapper into the
  attributes of the new class when the decorated class has no attribute of that name
  (\<open>cls_attrs\<close> lists the names it has) and the interface class has the operation the
  wrapper depends on.
\<close>

record 'm substrate_cls =
  auto_emissivity_matrix ::
    "(substrate \<Rightarrow> real \<Rightarrow> complex \<Rightarrow> real list \<Rightarrow> nat \<Rightarrow> error + 'm) option"
  auto_specular_reflection_matrix ::
    "(substrate \<Rightarrow> real \<Rightarrow> complex \<Rightarrow> real list \<Rightarrow> nat \<Rightarrow> error + 'm) option"
  auto_ft_even_diffuse_reflection_matrix ::
    "(substrate \<Rightarrow> real \<Rightarrow> complex \<Rightarrow> real list \<Rightarrow> real list \<Rightarrow> nat \<Rightarrow> nat \<Rightarrow> error + 'm) option"
  auto_diffuse_reflection_matrix ::
    "(substrate \<Rightarrow> real \<Rightarrow> complex \<Rightarrow> real list \<Rightarrow> real list \<Rightarrow> real \<Rightarrow> nat \<Rightarrow> error + 'm) option"

definition auto_add :: "string list \<Rightarrow> string \<Rightarrow> ('r \<Rightarrow> 'w) \<Rightarrow> 'r option \<Rightarrow> 'w option" where
  "auto_add cls_attrs new_method_name new_method dependency =
     (if new_method_name \<notin> set cls_attrs then map_option new_method dependency else None)"

definition substrate_from_interface :: "'m interface_cls \<Rightarrow> string list \<Rightarrow> 'm substrate_cls" where
  "substrate_from_interface icls cls_attrs =
     \<lparr>auto_emissivity_matrix =
        auto_add cls_attrs ''emissivity_matrix'' (emissivity_matrix (iface_name icls))
          (raw_coherent_transmission_matrix icls),
      auto_specular_reflection_matrix =
        auto_add cls_attrs ''specular_reflection_matrix'' (specular_reflection_matrix (iface_name icls))
          (raw_specular_reflection_matrix icls),
      auto_ft_even_diffuse_reflection_matrix =
        auto_add cls_attrs ''ft_even_diffuse_reflection_matrix''
          (ft_even_diffuse_reflection_matrix (iface_name icls))
          (raw_ft_even_diffuse_reflection_matrix icls),
      auto_diffuse_reflection_matrix =
        auto_add cls_attrs ''diffuse_reflection_matrix'' (diffuse_reflection_matrix (iface_name icls))
          (raw_diffuse_reflection_matrix icls)\<rparr>"

section \<open>Labeled arrays\<close>

text \<open>
  The results hold an \<open>xarray.DataArray\<close>. The model of the array library: an array has
  named dimensions, each with its list of coordinate labels (outermost first), and its
  numbers in row-major order. Only dimension coordinates are represented (a scalar
  coordinate left behind by a selection carries no data). Selection is by exact label: a
  scalar label removes the dimension, a list of labels keeps it; a keyword that is no
  dimension is a \<open>ValueError\<close>, a label that is absent a \<open>KeyError\<close>. Numbers are reals:
  rounding, \<open>nan\<close> and \<open>inf\<close> of floating point are not represented.
\<close>

record dataarray =
  dims :: "(string \<times> pyval list) list"
  vals :: "real list"

definition dim_names :: "dataarray \<Rightarrow> string list" where
  "dim_names x = map fst (dims x)"

definition shape :: "dataarray \<Rightarrow> nat list" where
  "shape x = map (\<lambda>d. length (snd d)) (dims x)"

definition xr_size :: "dataarray \<Rightarrow> nat" where
  "xr_size x = prod_list (shape x)"

definition wf_dataarray :: "dataarray \<Rightarrow> bool" where
  "wf_dataarray x = (distinct (dim_names x) \<and> length (vals x) = xr_size x)"

definition xr_squeeze :: "dataarray \<Rightarrow> dataarray" where
  "xr_squeeze x = x\<lparr>dims := filter (\<lambda>d. length (snd d) \<noteq> 1) (dims x)\<rparr>"

definition xr_float :: "dataarray \<Rightarrow> error + real" where
  "xr_float x = (case vals x of [v] \<Rightarrow> Inr v | _ \<Rightarrow> Inl TypeError)"

definition xr_map :: "(real \<Rightarrow> real) \<Rightarrow> dataarray \<Rightarrow> dataarray" where
  "xr_map f x = x\<lparr>vals := map f (vals x)\<rparr>"

definition xr_div :: "dataarray \<Rightarrow> dataarray \<Rightarrow> error + dataarray" where
  "xr_div a b =
     (if dims a = dims b then Inr (a\<lparr>vals := map (\<lambda>p. fst p / snd p) (zip (vals a) (vals b))\<rparr>)
      else Inl OutsideModel)"

fun index_of :: "'a \<Rightarrow> 'a list \<Rightarrow> nat option" where
  "index_of v [] = None"
| "index_of v (l # ls) = (if v = l then Some 0 else map_option Suc (index_of v ls))"

definition take_axis :: "nat list \<Rightarrow> nat \<Rightarrow> nat list \<Rightarrow> real list \<Rightarrow> real list" where
  "take_axis shp p js vs =
     (let outer = prod_list (take p shp);
          len = prod_list (take 1 (drop p shp));
          inner = prod_list (drop (Suc p) shp)
      in concat (map (\<lambda>out. concat (map (\<lambda>j. take inner (drop ((out * len + j) * inner) vs)) js))
                  [0 ..< outer]))"

definition label_lookup :: "pyval list \<Rightarrow> pyval \<Rightarrow> error + nat" where
  "label_lookup labels v = (case index_of v labels of None \<Rightarrow> Inl KeyError | Some j \<Rightarrow> Inr j)"

definition sel_dim :: "dataarray \<Rightarrow> string \<Rightarrow> pyval \<Rightarrow> error + dataarray" where
  "sel_dim x k v =
     (case index_of k (dim_names x) of
        None \<Rightarrow> Inl ValueError
      | Some p \<Rightarrow>
          (let labels = snd (dims x ! p) in
           case v of
             PList ls \<Rightarrow>
               (case list_comprehension (label_lookup labels) ls of
                  Inl e \<Rightarrow> Inl e
                | Inr js \<Rightarrow>
                    Inr \<lparr>dims = take p (dims x) @ [(k, ls)] @ drop (Suc p) (dims x),
                         vals = take_axis (shape x) p js (vals x)\<rparr>)
           | _ \<Rightarrow>
               (case label_lookup labels v of
                  Inl e \<Rightarrow> Inl e
                | Inr j \<Rightarrow>
                    Inr \<lparr>dims = take p (dims x) @ drop (Suc p) (dims x),
                         vals = take_axis (shape x) p [j] (vals x)\<rparr>)))"

fun sel_all :: "dataarray \<Rightarrow> pyval dict \<Rightarrow> error + dataarray" where
  "sel_all x [] = Inr x"
| "sel_all x (kv # kwargs) =
     (case sel_dim x (fst kv) (snd kv) of Inl e \<Rightarrow> Inl e | Inr y \<Rightarrow> sel_all y kwargs)"

definition xr_sel :: "dataarray \<Rightarrow> pyval dict \<Rightarrow> error + dataarray" where
  "xr_sel x kwargs =
     (if list_ex (\<lambda>k. k \<notin> set (dim_names x)) (dict_keys kwargs) then Inl ValueError
      else sel_all x kwargs)"

text \<open>
  \<open>pd.Index(data, dtype, copy, name)\<close>: a dtype that numpy does not know is a
  \<open>TypeError\<close>. \<open>xr.concat(objs, index)\<close> stacks the arrays along a new outermost
  dimension named by the index (\<open>concat_dim\<close> for an index without a name). It raises
  \<open>ValueError\<close> for an empty list and when the index has another length than the list.
  The library realigns arrays whose dimensions differ and fills with \<open>nan\<close>; the model
  has no \<open>nan\<close>, so that case (and a dimension name that is no string, or is already a
  dimension) is \<open>OutsideModel\<close>.
\<close>

record pd_index =
  idx_name :: pyval
  idx_values :: "pyval list"

definition numpy_dtypes :: "string list" where
  "numpy_dtypes = [''object'', ''float'', ''float64'', ''float32'', ''int'', ''int64'', ''int32'', ''bool'', ''str'']"

definition pd_Index :: "pyval list \<Rightarrow> string option \<Rightarrow> pyval \<Rightarrow> error + pd_index" where
  "pd_Index values dtype name =
     (case dtype of
        None \<Rightarrow> Inr \<lparr>idx_name = name, idx_values = values\<rparr>
      | Some t \<Rightarrow>
          (if t \<in> set numpy_dtypes then Inr \<lparr>idx_name = name, idx_values = values\<rparr>
           else Inl TypeError))"

definition concat_dim_name :: "pyval \<Rightarrow> string option" where
  "concat_dim_name name =
     (case name of PStr s \<Rightarrow> Some s | PNone \<Rightarrow> Some ''concat_dim'' | _ \<Rightarrow> None)"

definition xr_concat :: "dataarray list \<Rightarrow> pd_index \<Rightarrow> error + dataarray" where
  "xr_concat objs index =
     (case objs of
        [] \<Rightarrow> Inl ValueError
      | first # _ \<Rightarrow>
          (if length objs \<noteq> length (idx_values index) then Inl ValueError
           else case concat_dim_name (idx_name index) of
                  None \<Rightarrow> Inl OutsideModel
                | Some name \<Rightarrow>
                    (if list_all (\<lambda>obj. dims obj = dims first) objs \<and> name \<notin> set (dim_names first)
                     then Inr \<lparr>dims = (name, idx_values index) # dims first,
                               vals = concat (map vals objs)\<rparr>
                     else Inl OutsideModel)))"

text \<open>
  The product of a one-dimensional \<open>numpy\<close> array with a labeled array follows numpy's
  broadcasting: the factors run along the last dimension, which must have their length
  (a single factor scales every number).
\<close>

definition np_rmul :: "real list \<Rightarrow> dataarray \<Rightarrow> error + dataarray" where
  "np_rmul fs x =
     (let k = length fs in
      if shape x \<noteq> [] \<and> last (shape x) = k then
        Inr (x\<lparr>vals := map (\<lambda>p. fst p * snd p)
                         (zip (concat (replicate (xr_size x div k) fs)) (vals x))\<rparr>)
      else (case fs of [f] \<Rightarrow> Inr (xr_map ((*) f) x) | _ \<Rightarrow> Inl ValueError))"

section \<open>Results (result.py)\<close>

text \<open>
  A result is an \<open>ActiveResult\<close> or a \<open>PassiveResult\<close> (its class, \<open>rtype\<close>), the labeled
  array and the channel map: channel name to the dictionary of the coordinates that
  define the channel. Python compares dictionaries without regard to the order of keys.
\<close>

datatype result_class = ActiveResult | PassiveResult

record result =
  rtype :: result_class
  data :: dataarray
  channel_map :: "pyval dict dict"

definition Result_init :: "result_class \<Rightarrow> dataarray \<Rightarrow> pyval dict dict \<Rightarrow> result" where
  "Result_init cls intensity cm = \<lparr>rtype = cls, data = intensity, channel_map = cm\<rparr>"

definition dict_eq :: "('v \<Rightarrow> 'v \<Rightarrow> bool) \<Rightarrow> 'v dict \<Rightarrow> 'v dict \<Rightarrow> bool" where
  "dict_eq eqv a b =
     (list_all (\<lambda>k. k \<in> set (dict_keys b)) (dict_keys a) \<and>
      list_all (\<lambda>k. k \<in> set (dict_keys a)) (dict_keys b) \<and>
      list_all (\<lambda>k. case (dict_get a k, dict_get b k) of
                       (Some u, Some v) \<Rightarrow> eqv u v
                     | _ \<Rightarrow> False) (dict_keys a))"

definition channel_map_eq :: "pyval dict dict \<Rightarrow> pyval dict dict \<Rightarrow> bool" where
  "channel_map_eq a b = dict_eq (dict_eq (=)) a b"

text \<open>
  The merge of differing channel maps in \<open>concat_results\<close>:
  \<open>{ch: dict(**r.channel_map[ch], dim_name=dv) for r, dv in zip(result_list, dim_value)
  for ch in r.channel_map}\<close>. The keyword argument \<open>dim_name=dv\<close> makes the key the string
  \<open>dim_name\<close>; a channel whose coordinates have that key already gets the keyword twice,
  a \<open>TypeError\<close>.
\<close>

definition tag_channel :: "pyval dict \<Rightarrow> pyval \<Rightarrow> error + pyval dict" where
  "tag_channel coords dv =
     (if ''dim_name'' \<in> set (dict_keys coords) then Inl TypeError
      else Inr (coords @ [(''dim_name'', dv)]))"

fun merge_entries :: "(string \<times> pyval dict \<times> pyval) list \<Rightarrow> pyval dict dict \<Rightarrow> error + pyval dict dict" where
  "merge_entries [] acc = Inr acc"
| "merge_entries ((ch, coords, dv) # es) acc =
     (case tag_channel coords dv of
        Inl e \<Rightarrow> Inl e
      | Inr tagged \<Rightarrow> merge_entries es (dict_set ch tagged acc))"

definition merge_channel_maps :: "result list \<Rightarrow> pyval list \<Rightarrow> error + pyval dict dict" where
  "merge_channel_maps result_list dim_value =
     merge_entries
       (concat (map (\<lambda>rdv. map (\<lambda>chc. (fst chc, snd chc, snd rdv)) (channel_map (fst rdv)))
                  (zip result_list dim_value)))
       []"

datatype coord = CoordTuple pyval "pyval list" | CoordIndex pd_index

definition concat_results :: "result list \<Rightarrow> coord \<Rightarrow> error + result" where
  "concat_results result_list coord =
     (let index = (case coord of
                     CoordTuple dim_name dim_value \<Rightarrow> \<lparr>idx_name = dim_name, idx_values = dim_value\<rparr>
                   | CoordIndex i \<Rightarrow> i)
      in case result_list of
           [] \<Rightarrow> Inl IndexError
         | first # _ \<Rightarrow>
             (let ResultClass = rtype first in
              if \<not> list_all (\<lambda>result. rtype result = ResultClass) result_list
              then Inl (SMRTError ''The results are not all of the same type'')
              else
                case (if list_ex (\<lambda>res. \<not> channel_map_eq (channel_map res) (channel_map first)) result_list
                      then (case coord of
                              CoordTuple dim_name dim_value \<Rightarrow> merge_channel_maps result_list dim_value
                            | CoordIndex _ \<Rightarrow> Inl AssertionError)
                      else Inr (channel_map first)) of
                  Inl e \<Rightarrow> Inl e
                | Inr cm \<Rightarrow>
                    (case xr_concat (map data result_list) index of
                       Inl e \<Rightarrow> Inl e
                     | Inr d \<Rightarrow> Inr (Result_init ResultClass d cm))))"

text \<open>
  \<open>_strongsqueeze\<close>: what a scalar-returning accessor returns is a bare float or a
  labeled array.
\<close>

datatype accessor_value = Float real | Array dataarray

definition bind_err :: "error + 'a \<Rightarrow> ('a \<Rightarrow> error + 'b) \<Rightarrow> error + 'b" where
  "bind_err r f = (case r of Inl e \<Rightarrow> Inl e | Inr x \<Rightarrow> f x)"

definition strongsqueeze :: "dataarray \<Rightarrow> error + accessor_value" where
  "strongsqueeze x0 =
     (let x = xr_squeeze x0 in
      if xr_size x = 1 then map_sum id Float (xr_float x) else Inr (Array x))"

text \<open>
  \<open>kwargs\<close> holds the dimension filters of a call. Passing a keyword explicitly and again
  in \<open>**kwargs\<close> is a \<open>TypeError\<close> of the call.
\<close>

definition call_kwargs :: "pyval dict \<Rightarrow> pyval dict \<Rightarrow> error + pyval dict" where
  "call_kwargs explicit kwargs =
     (if list_ex (\<lambda>k. k \<in> set (dict_keys kwargs)) (dict_keys explicit) then Inl TypeError
      else Inr (explicit @ kwargs))"

definition channel_filter :: "result \<Rightarrow> string option \<Rightarrow> pyval dict \<Rightarrow> error + pyval dict" where
  "channel_filter self channel kwargs =
     (case channel of
        None \<Rightarrow> Inr kwargs
      | Some ch \<Rightarrow>
          (case dict_get (channel_map self) ch of
             None \<Rightarrow> Inl KeyError
           | Some coords \<Rightarrow>
               Inr (dict_update kwargs
                      (filter (\<lambda>kv. fst kv \<in> set (dim_names (data self))) coords))))"

definition PassiveResult_sel_data :: "result \<Rightarrow> string option \<Rightarrow> pyval dict \<Rightarrow> error + dataarray" where
  "PassiveResult_sel_data self channel kwargs0 =
     bind_err (channel_filter self channel kwargs0) (\<lambda>kwargs. xr_sel (data self) kwargs)"

definition Tb :: "result \<Rightarrow> string option \<Rightarrow> pyval dict \<Rightarrow> error + accessor_value" where
  "Tb self channel kwargs = bind_err (PassiveResult_sel_data self channel kwargs) strongsqueeze"

definition TbV :: "result \<Rightarrow> pyval dict \<Rightarrow> error + accessor_value" where
  "TbV self kwargs =
     bind_err (bind_err (call_kwargs [(''polarization'', PStr ''V'')] kwargs) (xr_sel (data self)))
       strongsqueeze"

definition TbH :: "result \<Rightarrow> pyval dict \<Rightarrow> error + accessor_value" where
  "TbH self kwargs =
     bind_err (bind_err (call_kwargs [(''polarization'', PStr ''H'')] kwargs) (xr_sel (data self)))
       strongsqueeze"

definition polarization_ratio_data :: "result \<Rightarrow> string \<Rightarrow> pyval dict \<Rightarrow> error + dataarray" where
  "polarization_ratio_data self ratio kwargs =
     (case ratio of
        [] \<Rightarrow> Inl IndexError
      | c # _ \<Rightarrow>
          bind_err (bind_err (call_kwargs [(''polarization'', PStr [c])] kwargs) (xr_sel (data self)))
            (\<lambda>a. bind_err
                    (bind_err (call_kwargs [(''polarization'', PStr [last ratio])] kwargs)
                       (xr_sel (data self)))
                    (\<lambda>b. xr_div a b)))"

definition polarization_ratio :: "result \<Rightarrow> string \<Rightarrow> pyval dict \<Rightarrow> error + accessor_value" where
  "polarization_ratio self ratio kwargs =
     bind_err (polarization_ratio_data self ratio kwargs) strongsqueeze"

text \<open>
  Modelled from the spec: \<open>smrt.utils.dB\<close> is missing from the source files; dB values are
  \<open>10 log10\<close>.
\<close>

definition dB :: "real \<Rightarrow> real" where
  "dB x = 10 * log 10 x"

definition dB_value :: "accessor_value \<Rightarrow> accessor_value" where
  "dB_value v = (case v of Float f \<Rightarrow> Float (dB f) | Array a \<Rightarrow> Array (xr_map dB a))"

datatype backscatter = NoBackscatter | Natural | DeciBel

text \<open>
  The angle of the backscatter transform is a filter value or, when no angle is given, the
  \<open>theta_inc\<close> coordinate of the data (a labeled array, which \<open>lib.is_sequence\<close> does not
  take for a sequence). Selecting with that coordinate is pointwise: one slice per label
  \<open>t\<close>, taken at \<open>theta = t\<close> and \<open>theta_inc = t\<close>; the product with the cosines aligns on
  \<open>theta_inc\<close>, which becomes the outermost dimension.
\<close>

datatype theta_value = ThetaVal pyval | ThetaCoord "pyval list"

definition select_theta :: "dataarray \<Rightarrow> pyval \<Rightarrow> pyval dict \<Rightarrow> error + dataarray" where
  "select_theta x theta kwargs =
     (if ''theta'' \<in> set (dim_names x)
      then xr_sel x ([(''theta'', theta), (''theta_inc'', theta)] @ kwargs)
      else xr_sel x ([(''theta_inc'', theta)] @ kwargs))"

definition backscatter_factor :: "pyval \<Rightarrow> error + real" where
  "backscatter_factor theta =
     (case theta of
        PNum t \<Rightarrow> Inr (4 * pi * cos (t * pi / 180))
      | _ \<Rightarrow> Inl TypeError)"

definition select_backscatter :: "dataarray \<Rightarrow> theta_value \<Rightarrow> pyval dict \<Rightarrow> error + dataarray" where
  "select_backscatter x0 theta kwargs =
     (case theta of
        ThetaVal (PList ts) \<Rightarrow>
          bind_err (list_comprehension (\<lambda>t. select_theta x0 t kwargs) ts)
            (\<lambda>xs. bind_err (pd_Index ts (Some ''theta_inc'') PNone)
               (\<lambda>index. bind_err (xr_concat xs index)
                  (\<lambda>x. bind_err (list_comprehension backscatter_factor ts)
                     (\<lambda>fs. np_rmul fs x))))
      | ThetaVal t \<Rightarrow>
          bind_err (select_theta x0 t kwargs)
            (\<lambda>x. bind_err (backscatter_factor t) (\<lambda>f. Inr (xr_map ((*) f) x)))
      | ThetaCoord labels \<Rightarrow>
          bind_err (xr_sel x0 kwargs)
            (\<lambda>y. bind_err (list_comprehension (\<lambda>t. select_theta y t []) labels)
               (\<lambda>xs. bind_err (list_comprehension backscatter_factor labels)
                  (\<lambda>fs. Inr \<lparr>dims = (''theta_inc'', labels) #
                                     filter (\<lambda>d. fst d \<noteq> ''theta'' \<and> fst d \<noteq> ''theta_inc'') (dims y),
                              vals = concat (map (\<lambda>p. map ((*) (fst p)) (vals (snd p))) (zip fs xs))\<rparr>))))"

definition theta_msg :: string where
  "theta_msg = ''theta and theta_inc must be the same when returning backscatter''"

definition ActiveResult_sel_data ::
  "result \<Rightarrow> string option \<Rightarrow> backscatter \<Rightarrow> pyval dict \<Rightarrow> error + dataarray" where
  "ActiveResult_sel_data self channel return_backscatter kwargs0 =
     bind_err (channel_filter self channel kwargs0)
       (\<lambda>kwargs1.
          if return_backscatter = NoBackscatter then xr_sel (data self) kwargs1
          else
            (let (theta0, kwargs2) = dict_pop ''theta'' kwargs1;
                 (theta_inc, kwargs) = dict_pop ''theta_inc'' kwargs2
             in if theta0 \<noteq> PNone \<and> theta_inc \<noteq> PNone \<and> \<not> (theta_inc = theta0)
                then Inl (SMRTError theta_msg)
                else
                  (let theta1 = (if theta0 = PNone then theta_inc else theta0) in
                   bind_err
                     (if theta1 = PNone
                      then (case dict_get (dims (data self)) ''theta_inc'' of
                              None \<Rightarrow> Inl AttributeError
                            | Some labels \<Rightarrow> Inr (ThetaCoord labels))
                      else Inr (ThetaVal theta1))
                     (\<lambda>theta. bind_err (select_backscatter (data self) theta kwargs)
                        (\<lambda>x. Inr (if return_backscatter = DeciBel then xr_map dB x else x))))))"

definition sigma :: "result \<Rightarrow> string option \<Rightarrow> pyval dict \<Rightarrow> error + accessor_value" where
  "sigma self channel kwargs =
     bind_err (ActiveResult_sel_data self channel Natural kwargs) strongsqueeze"

definition sigma_dB :: "result \<Rightarrow> string option \<Rightarrow> pyval dict \<Rightarrow> error + accessor_value" where
  "sigma_dB self channel kwargs =
     bind_err (ActiveResult_sel_data self channel DeciBel kwargs) strongsqueeze"

definition sigma_pol :: "string \<Rightarrow> string \<Rightarrow> result \<Rightarrow> pyval dict \<Rightarrow> error + accessor_value" where
  "sigma_pol pol_inc pol self kwargs =
     bind_err (call_kwargs [(''polarization_inc'', PStr pol_inc), (''polarization'', PStr pol)] kwargs)
       (sigma self None)"

definition sigmaVV :: "result \<Rightarrow> pyval dict \<Rightarrow> error + accessor_value" where
  "sigmaVV self kwargs = sigma_pol ''V'' ''V'' self kwargs"

definition sigmaVV_dB :: "result \<Rightarrow> pyval dict \<Rightarrow> error + accessor_value" where
  "sigmaVV_dB self kwargs = map_sum id dB_value (sigmaVV self kwargs)"

definition sigmaHH :: "result \<Rightarrow> pyval dict \<Rightarrow> error + accessor_value" where
  "sigmaHH self kwargs = sigma_pol ''H'' ''H'' self kwargs"

definition sigmaHH_dB :: "result \<Rightarrow> pyval dict \<Rightarrow> error + accessor_value" where
  "sigmaHH_dB self kwargs = map_sum id dB_value (sigmaHH self kwargs)"

definition sigmaHV :: "result \<Rightarrow> pyval dict \<Rightarrow> error + accessor_value" where
  "sigmaHV self kwargs = sigma_pol ''H'' ''V'' self kwargs"

definition sigmaHV_dB :: "result \<Rightarrow> pyval dict \<Rightarrow> error + accessor_value" where
  "sigmaHV_dB self kwargs = map_sum id dB_value (sigmaHV self kwargs)"

definition sigmaVH :: "result \<Rightarrow> pyval dict \<Rightarrow> error + accessor_value" where
  "sigmaVH self kwargs = sigma_pol ''V'' ''H'' self kwargs"

definition sigmaVH_dB :: "result \<Rightarrow> pyval dict \<Rightarrow> error + accessor_value" where
  "sigmaVH_dB self kwargs = map_sum id dB_value (sigmaVH self kwargs)"

section \<open>The model driver (model.py)\<close>

text \<open>
  Modelled from the spec: the sensor class (\<open>smrt.core.sensor\<close>, with \<open>configurations\<close>
  and \<open>iterate\<close>) is missing from the source files. By the spec a sensor configuration
  has named axes with their ordered values and a channel map, and can be decomposed
  along a named axis into the sequence of narrower configurations, one per value of the
  axis.
\<close>

record sensor =
  sensor_mode :: result_class
  axes :: "(pyval list) dict"
  sensor_channel_map :: "pyval dict dict"

definition configurations :: "sensor \<Rightarrow> (string \<times> pyval list) list" where
  "configurations s = axes s"

definition iterate :: "sensor \<Rightarrow> string \<Rightarrow> sensor list" where
  "iterate s axis =
     (case dict_get (axes s) axis of
        None \<Rightarrow> [s]
      | Some values \<Rightarrow> map (\<lambda>v. s\<lparr>axes := dict_set axis [v] (axes s)\<rparr>) values)"

text \<open>
  The snowpack argument of \<open>run\<close>: one snowpack, a list, a dictionary, a pandas Series
  (an index and the snowpacks) or a \<open>SensitivityStudy\<close> (variable, values, snowpacks).
  The \<open>snowpack_dimension\<close> argument is \<open>None\<close>, a tuple of a name and values (or
  \<open>None\<close> for the values) or a pandas index. A snowpack object has no length:
  \<open>len(snowpack)\<close> of a single snowpack is a \<open>TypeError\<close>.
\<close>

datatype 'sp snowpack_arg =
    Single 'sp
  | SnowpackList "'sp list"
  | SnowpackDict "(pyval \<times> 'sp) list"
  | SnowpackSeries pd_index "'sp list"
  | Study pyval "pyval list" "'sp list"

datatype sp_dimension = DimTuple pyval "pyval list option" | DimIndex pd_index

definition py_range_values :: "nat \<Rightarrow> pyval list" where
  "py_range_values n = map (\<lambda>k. PNum (real k)) [0 ..< n]"

definition normalize_snowpack ::
  "'sp snowpack_arg \<Rightarrow> sp_dimension option \<Rightarrow> ('sp + 'sp list) \<times> sp_dimension option" where
  "normalize_snowpack snowpack snowpack_dimension =
     (case snowpack of
        Study variable values snowpacks \<Rightarrow> (Inr snowpacks, Some (DimTuple variable (Some values)))
      | SnowpackDict d \<Rightarrow> (Inr (map snd d), Some (DimTuple (PStr ''snowpack'') (Some (map fst d))))
      | SnowpackSeries index snowpacks \<Rightarrow> (Inr snowpacks, Some (DimIndex index))
      | SnowpackList snowpacks \<Rightarrow> (Inr snowpacks, snowpack_dimension)
      | Single sp \<Rightarrow> (Inl sp, snowpack_dimension))"

definition dimension_item0 :: "sp_dimension \<Rightarrow> error + pyval" where
  "dimension_item0 d =
     (case d of
        DimTuple name _ \<Rightarrow> Inr name
      | DimIndex index \<Rightarrow> (case idx_values index of [] \<Rightarrow> Inl IndexError | l # _ \<Rightarrow> Inr l))"

definition dimension_item1 :: "sp_dimension \<Rightarrow> error + pyval" where
  "dimension_item1 d =
     (case d of
        DimTuple _ None \<Rightarrow> Inr PNone
      | DimTuple _ (Some values) \<Rightarrow> Inr (PList values)
      | DimIndex index \<Rightarrow>
          (case idx_values index of l0 # l1 # _ \<Rightarrow> Inr l1 | _ \<Rightarrow> Inl IndexError))"

definition default_dimension :: "'sp list \<Rightarrow> sp_dimension option \<Rightarrow> error + sp_dimension" where
  "default_dimension snowpack snowpack_dimension =
     (let d = (case snowpack_dimension of
                 None \<Rightarrow> DimTuple (PStr ''snowpack'') None
               | Some d \<Rightarrow> d)
      in bind_err (dimension_item1 d)
           (\<lambda>item1. if item1 = PNone
                     then bind_err (dimension_item0 d)
                            (\<lambda>item0. Inr (DimTuple item0 (Some (py_range_values (length snowpack)))))
                     else Inr d))"

definition check_dimension :: "('sp + 'sp list) \<Rightarrow> sp_dimension option \<Rightarrow> error + unit" where
  "check_dimension snowpack snowpack_dimension =
     (case snowpack_dimension of
        None \<Rightarrow> Inr ()
      | Some d \<Rightarrow>
          (case snowpack of
             Inl sp \<Rightarrow> Inl TypeError
           | Inr snowpacks \<Rightarrow>
               bind_err (dimension_item1 d)
                 (\<lambda>item1. bind_err (py_len item1)
                    (\<lambda>n. if length snowpacks \<noteq> n
                         then Inl (SMRTError ''The list of snowpacks must have the same length as the snowpack_dimension'')
                         else (case d of
                                 DimTuple (PStr _) _ \<Rightarrow> Inr ()
                               | DimTuple _ _ \<Rightarrow>
                                   Inl (SMRTError ''When the 'snowpack_dimension' argument is a tuple, the first argument must be a string'')
                               | DimIndex _ \<Rightarrow> Inr ())))))"

definition dimension_coord :: "sp_dimension \<Rightarrow> coord" where
  "dimension_coord d =
     (case d of
        DimTuple name values \<Rightarrow> CoordTuple name (case values of None \<Rightarrow> [] | Some vs \<Rightarrow> vs)
      | DimIndex index \<Rightarrow> CoordIndex index)"

fun prepare_recursive ::
  "('sp + 'sp list) \<Rightarrow> sensor \<Rightarrow> (string \<times> pyval list) list \<Rightarrow> (sensor \<times> 'sp) list" where
  "prepare_recursive snowpack s [] =
     (case snowpack of
        Inr snowpacks \<Rightarrow> map (\<lambda>sp. (s, sp)) snowpacks
      | Inl sp \<Rightarrow> [(s, sp)])"
| "prepare_recursive snowpack s (av # rest) =
     concat (map (\<lambda>sensor_subset. prepare_recursive snowpack sensor_subset rest) (iterate s (fst av)))"

definition prepare_simulations ::
  "string list \<Rightarrow> sensor \<Rightarrow> 'sp snowpack_arg \<Rightarrow> sp_dimension option \<Rightarrow>
   error + ((sensor \<times> 'sp) list \<times> coord list)" where
  "prepare_simulations rt_solver_broadcast_capability s snowpack0 snowpack_dimension0 =
     (let (snowpack, snowpack_dimension1) = normalize_snowpack snowpack0 snowpack_dimension0 in
      bind_err (case snowpack of
                  Inr snowpacks \<Rightarrow> map_sum id Some (default_dimension snowpacks snowpack_dimension1)
                | Inl sp \<Rightarrow> Inr snowpack_dimension1)
        (\<lambda>snowpack_dimension.
           bind_err (check_dimension snowpack snowpack_dimension)
             (\<lambda>_. let sensor_configurations =
                         filter (\<lambda>av. fst av \<notin> set rt_solver_broadcast_capability) (configurations s);
                       simulations = prepare_recursive snowpack s sensor_configurations;
                       dimensions = map (\<lambda>av. CoordTuple (PStr (fst av)) (snd av)) sensor_configurations
                                    @ (case snowpack_dimension of
                                         None \<Rightarrow> []
                                       | Some d \<Rightarrow> [dimension_coord d])
                   in Inr (simulations, dimensions))))"

text \<open>
  \<open>Model.run\<close>. The model object gives the broadcast capability of its solver and the
  unit function \<open>run_single_simulation\<close> (the construction of the electromagnetic models
  and the call of the solver, which are plug-ins). \<open>runner\<close> is \<open>None\<close> or a callable;
  \<open>pick\<close> is the failure report of the default parallel runner. The fold of the flat
  result list runs over the dimensions from the innermost to the outermost.
\<close>

record ('sp, 'atm) model =
  broadcast_capability :: "string list"
  run_single_simulation :: "(sensor \<times> 'sp) \<Rightarrow> 'atm option \<Rightarrow> error + result"

definition coord_len :: "coord \<Rightarrow> nat" where
  "coord_len dimension =
     (case dimension of
        CoordTuple _ values \<Rightarrow> length values
      | CoordIndex index \<Rightarrow> length (idx_values index))"

definition reshape_step :: "coord \<Rightarrow> result list \<Rightarrow> error + result list" where
  "reshape_step dimension results =
     (let n = coord_len dimension in
      bind_err (py_range (length results) (int n))
        (\<lambda>starts. list_comprehension
                    (\<lambda>i. concat_results (py_slice results i (int i + int n)) dimension) starts))"

fun reshape :: "coord list \<Rightarrow> result list \<Rightarrow> error + result list" where
  "reshape [] results = Inr results"
| "reshape (dimension # rest) results = bind_err (reshape_step dimension results) (reshape rest)"

definition Model_run ::
  "('sp, 'atm) model \<Rightarrow> (error list \<Rightarrow> error) \<Rightarrow> sensor \<Rightarrow> 'sp snowpack_arg \<Rightarrow> 'atm option \<Rightarrow>
   sp_dimension option \<Rightarrow> bool \<Rightarrow> bool \<Rightarrow>
   ((((sensor \<times> 'sp) \<times> 'atm option) \<Rightarrow> error + result) \<Rightarrow> ((sensor \<times> 'sp) \<times> 'atm option) list
      \<Rightarrow> error + result list) option \<Rightarrow>
   error + result" where
  "Model_run self pick s snowpack atmosphere snowpack_dimension progressbar parallel_computation runner0 =
     (if atmosphere \<noteq> None
      then Inl (DeprecationWarning ''The atmosphere argument of the run method is going to be depreciated.'')
      else
        bind_err (prepare_simulations (broadcast_capability self) s snowpack snowpack_dimension)
          (\<lambda>(simulations, dimensions).
             bind_err (case runner0 of
                         Some r \<Rightarrow> Inr r
                       | None \<Rightarrow>
                           (if parallel_computation then
                              (if progressbar
                               then Inl (SMRTError ''Parallel computation is incompatible with progressbar'')
                               else Inr (JoblibParallelRunner pick))
                            else Inr SequentialRunner))
               (\<lambda>runner.
                  bind_err (runner (\<lambda>args. run_single_simulation self (fst args) (snd args))
                              (map (\<lambda>simul. (simul, atmosphere)) simulations))
                    (\<lambda>results0.
                       bind_err (reshape (rev dimensions) results0)
                         (\<lambda>results. case results of
                                       [r] \<Rightarrow> Inr r
                                     | _ \<Rightarrow> Inl AssertionError)))))"

section \<open>Example data\<close>

text \<open>Concrete classes, objects and results on which the properties below are evaluated.\<close>

definition example_raw :: "real raw_specular" where
  "example_raw self frequency eps_1 eps_2 mu1 npol = Inr (Re eps_2)"

definition example_interface_cls :: "real interface_cls" where
  "example_interface_cls =
     \<lparr>iface_name = ''Flat'',
      raw_specular_reflection_matrix = Some example_raw,
      raw_coherent_transmission_matrix = Some example_raw,
      raw_diffuse_reflection_matrix = None,
      raw_ft_even_diffuse_reflection_matrix = None\<rparr>"

definition example_substrate :: substrate where
  "example_substrate = \<lparr>temperature = Some 270, permittivity_model = None, iface_attrs = []\<rparr>"

definition first_failure :: "error list \<Rightarrow> error" where
  "first_failure es = (case es of [] \<Rightarrow> OutsideModel | e # _ \<Rightarrow> e)"

definition example_sensor :: sensor where
  "example_sensor =
     \<lparr>sensor_mode = PassiveResult,
      axes = [(''frequency'', [PNum 19, PNum 37])],
      sensor_channel_map = []\<rparr>"

definition example_data :: dataarray where
  "example_data = \<lparr>dims = [(''polarization'', [PStr ''V'', PStr ''H''])], vals = [250, 240]\<rparr>"

definition example_result :: result where
  "example_result = \<lparr>rtype = PassiveResult, data = example_data, channel_map = []\<rparr>"

definition example_unit :: "(sensor \<times> nat) \<Rightarrow> unit option \<Rightarrow> error + result" where
  "example_unit simul atmosphere = Inr example_result"

definition example_model :: "(nat, unit) model" where
  "example_model = \<lparr>broadcast_capability = [], run_single_simulation = example_unit\<rparr>"

definition example_function :: "((sensor \<times> nat) \<times> unit option) \<Rightarrow> error + result" where
  "example_function unit_args = example_unit (fst unit_args) (snd unit_args)"

section \<open>Properties\<close>

lemma list_comprehension_ok:
  "list_all (\<lambda>x. \<not> isl (f x)) xs \<Longrightarrow> list_comprehension f xs = Inr (map (\<lambda>x. projr (f x)) xs)"
  by (induction xs) (auto split: sum.splits)

subsection \<open>Substrates without a permittivity model\<close>

text \<open>
  Claim C8. Every boundary operation that \<open>substrate_from_interface\<close> derives (specular
  reflection, emissivity, diffuse reflection and its Fourier decomposition) raises the
  \<open>SMRTError\<close> "No permittivity_model have been given to the substrate" when the
  substrate has no permittivity model: the result is that error whatever the operation
  of the interface class would return, so the operation is never called with a defaulted
  permittivity.
\<close>

theorem substrate_operations_need_permittivity_model:
  assumes "permittivity_model self = None"
  shows "(auto_specular_reflection_matrix (substrate_from_interface icls cls_attrs) = Some w1 \<longrightarrow>
            w1 self frequency eps_1 mu1 npol = Inl (SMRTError (no_model_msg (iface_name icls))))
       \<and> (auto_emissivity_matrix (substrate_from_interface icls cls_attrs) = Some w2 \<longrightarrow>
            w2 self frequency eps_1 mu1 npol = Inl (SMRTError (no_model_msg (iface_name icls))))
       \<and> (auto_diffuse_reflection_matrix (substrate_from_interface icls cls_attrs) = Some w3 \<longrightarrow>
            w3 self frequency eps_1 mu_s mu_i dphi npol = Inl (SMRTError (no_model_msg (iface_name icls))))
       \<and> (auto_ft_even_diffuse_reflection_matrix (substrate_from_interface icls cls_attrs) = Some w4 \<longrightarrow>
            w4 self frequency eps_1 mu_s mu_i m_max npol = Inl (SMRTError (no_model_msg (iface_name icls))))"
proof -
  have p: "permittivity self frequency = None"
    using assms by (simp add: permittivity_def)
  show ?thesis
    using p
    by (auto simp: substrate_from_interface_def auto_add_def specular_reflection_matrix_def
        emissivity_matrix_def diffuse_reflection_matrix_def ft_even_diffuse_reflection_matrix_def
        split: if_splits)
qed

theorem substrate_operations_need_permittivity_model_witness:
  "permittivity_model example_substrate = None
   \<and> auto_specular_reflection_matrix (substrate_from_interface example_interface_cls [])
       = Some (specular_reflection_matrix ''Flat'' example_raw)
   \<and> specular_reflection_matrix ''Flat'' example_raw example_substrate 37 1 [1] 2
       = Inl (SMRTError ''No permittivity_model have been given to the substrate Flat'')
   \<and> auto_emissivity_matrix (substrate_from_interface example_interface_cls [])
       = Some (emissivity_matrix ''Flat'' example_raw)
   \<and> emissivity_matrix ''Flat'' example_raw example_substrate 37 1 [1] 2
       = Inl (SMRTError ''No permittivity_model have been given to the substrate Flat'')"
proof -
  have h: "permittivity_model example_substrate = None"
    by (simp add: example_substrate_def)
  have a: "auto_specular_reflection_matrix (substrate_from_interface example_interface_cls [])
       = Some (specular_reflection_matrix ''Flat'' example_raw)"
    and b: "auto_emissivity_matrix (substrate_from_interface example_interface_cls [])
       = Some (emissivity_matrix ''Flat'' example_raw)"
    by (simp_all add: substrate_from_interface_def auto_add_def example_interface_cls_def)
  have n: "iface_name example_interface_cls = ''Flat''"
    by (simp add: example_interface_cls_def)
  from substrate_operations_need_permittivity_model [OF h, of example_interface_cls "[]"
      "specular_reflection_matrix ''Flat'' example_raw" 37 1 "[1]" 2
      "emissivity_matrix ''Flat'' example_raw"] a b h n
  show ?thesis by (simp add: no_model_msg_def)
qed

end
